theory Spec2Isabelle
  imports Main "HOL-Library.Word"
begin

section \<open>Python values shared by the two services\<close>

text \<open>
  Byte strings are lists of octets. Exceptions are values: every constructor below is an
  instance of Python's \<^verbatim>\<open>Exception\<close>, which is what the handlers of both services
  catch (\<^verbatim>\<open>except Exception as e\<close>). Task cancellation is not an \<^verbatim>\<open>Exception\<close> and
  belongs to the scheduler; it is not part of this model. \<open>str_exn\<close> is \<^verbatim>\<open>str(e)\<close>, the
  text an f-string inserts for \<^verbatim>\<open>{e}\<close>.
\<close>

type_synonym byte = "8 word"
type_synonym bytes = "byte list"

datatype exn =
    JSONDecodeError string
  | TypeError string
  | KeyError string
  | AttributeError string
  | ConnectionClosedError string
  | ClientError string

fun str_exn :: "exn \<Rightarrow> string" where
  "str_exn (JSONDecodeError m) = m"
| "str_exn (TypeError m) = m"
| "str_exn (KeyError m) = m"
| "str_exn (AttributeError m) = m"
| "str_exn (ConnectionClosedError m) = m"
| "str_exn (ClientError m) = m"

text \<open>\<^verbatim>\<open>str(n)\<close> of a Python int, as an f-string inserts it: decimal, with a sign.\<close>

fun digits :: "nat \<Rightarrow> string" where
  "digits n =
     (if n < 10 then [''0123456789'' ! n]
      else digits (n div 10) @ [''0123456789'' ! (n mod 10)])"

declare digits.simps [simp del]

definition str_int :: "int \<Rightarrow> string" where
  "str_int i = (if i < 0 then CHR ''-'' # digits (nat (- i)) else digits (nat i))"

text \<open>Python's \<^verbatim>\<open>sub in s\<close> on sequences of characters: \<open>sub\<close> occurs in \<open>s\<close>.\<close>

fun contains :: "'a list \<Rightarrow> 'a list \<Rightarrow> bool" where
  "contains sub [] = (sub = [])"
| "contains sub (y # ys) = (take (length sub) (y # ys) = sub \<or> contains sub ys)"

text \<open>
  A value decoded by \<^verbatim>\<open>json.loads\<close>. An object is the decoded dict, as the list of its
  items; a dict has each key once, and \<open>map_of\<close> reads it. Numbers are integers here:
  nothing below looks at a number except to ask whether it is zero.
\<close>

datatype json =
    JNull
  | JBool bool
  | JNum int
  | JStr string
  | JArr "json list"
  | JObj "(string \<times> json) list"

section \<open>Frames\<close>

text \<open>
  The frames the two services produce. \<open>AudioData\<close> is the audio frame of the base
  class's streaming helper. Transcription frames carry the text, the user id and the
  language; their timestamp is the wall clock's and is left out.
\<close>

datatype frame =
    ErrorFrame string
  | TTSStartedFrame
  | TTSStoppedFrame
  | AudioData bytes
  | TranscriptionFrame json string string
  | InterimTranscriptionFrame json string string

fun is_error :: "frame \<Rightarrow> bool" where
  "is_error (ErrorFrame m) = True"
| "is_error f = False"

fun is_audio :: "frame \<Rightarrow> bool" where
  "is_audio (AudioData b) = True"
| "is_audio f = False"

fun audio_bytes :: "frame list \<Rightarrow> bytes" where
  "audio_bytes [] = []"
| "audio_bytes (AudioData b # fs) = b @ audio_bytes fs"
| "audio_bytes (f # fs) = audio_bytes fs"

text \<open>
  One run of an asynchronous generator: the frames it yielded in order, the exception
  that left it (if any), and the service afterwards.
\<close>

record 'a run =
  yielded :: "frame list"
  raised :: "exn option"
  after :: 'a

section \<open>The streaming helper of the text-to-speech base class\<close>

text \<open>
  Modelled from the spec: \<^verbatim>\<open>TTSService._stream_audio_frames_from_iterator\<close> and the
  \<^verbatim>\<open>chunk_size\<close> it cuts frames to belong to the base class, which is not among the
  sources. The specification says: the first 44 bytes of the stream are the container
  header and are discarded once, however the transport chunks them (the helper holds
  bytes back until the header length is met); the remaining bytes are forwarded as audio
  frames of the configured chunk size, and transport chunk boundaries need not be frame
  boundaries. The helper yields audio frames only. What is left in the buffer when the
  stream ends is sent as a last, shorter frame; when the iterator raises, the exception
  leaves the helper after the frames already yielded.
\<close>

text \<open>
  Modelled from the spec: the size of the container header, fixed at 44 bytes.
\<close>

definition wav_header_size :: nat where
  "wav_header_size = 44"

text \<open>
  Modelled from the spec: the helper's progress through one stream, which is the header
  bytes still to be discarded and the bytes held back for the next frame.
\<close>

record stream_state =
  header_left :: nat
  buffer :: bytes

text \<open>
  Modelled from the spec: frames of the configured chunk size are cut from the front of
  the buffer while it holds that many bytes; the rest stays in the buffer.
\<close>

fun split_frames :: "nat \<Rightarrow> bytes \<Rightarrow> bytes list \<times> bytes" where
  "split_frames n buf =
     (if n = 0 \<or> length buf < n then ([], buf)
      else (case split_frames n (drop n buf) of (fs, rest) \<Rightarrow> (take n buf # fs, rest)))"

declare split_frames.simps [simp del]

text \<open>
  Modelled from the spec: one transport chunk. Its leading bytes go to the header while
  header bytes are outstanding; the others join the buffer, and full frames leave it.
\<close>

definition feed :: "nat \<Rightarrow> stream_state \<Rightarrow> bytes \<Rightarrow> frame list \<times> stream_state" where
  "feed n st chunk =
     (let skip = min (header_left st) (length chunk) in
      case split_frames n (buffer st @ drop skip chunk) of
        (fs, rest) \<Rightarrow> (map AudioData fs, \<lparr>header_left = header_left st - skip, buffer = rest\<rparr>))"

text \<open>
  Modelled from the spec: at the end of the stream the bytes left in the buffer, if any,
  are the last frame.
\<close>

definition flush :: "stream_state \<Rightarrow> frame list" where
  "flush st = (if buffer st = [] then [] else [AudioData (buffer st)])"

text \<open>
  Modelled from the spec: the iteration over the transport's chunks, which ends normally
  or with the exception \<open>ending\<close> of the iterator.
\<close>

fun stream_loop :: "nat \<Rightarrow> stream_state \<Rightarrow> bytes list \<Rightarrow> exn option \<Rightarrow> frame list \<times> exn option" where
  "stream_loop n st [] None = (flush st, None)"
| "stream_loop n st [] (Some e) = ([], Some e)"
| "stream_loop n st (c # cs) ending =
     (case feed n st c of (fs, st') \<Rightarrow>
        (case stream_loop n st' cs ending of (gs, r) \<Rightarrow> (fs @ gs, r)))"

text \<open>
  Modelled from the spec: the helper as \<^verbatim>\<open>run_tts\<close> calls it, on fresh state.
\<close>

definition stream_audio_frames_from_iterator ::
  "nat \<Rightarrow> bytes list \<Rightarrow> exn option \<Rightarrow> bool \<Rightarrow> frame list \<times> exn option" where
  "stream_audio_frames_from_iterator n chunks ending strip_wav_header =
     stream_loop n \<lparr>header_left = (if strip_wav_header then wav_header_size else 0), buffer = []\<rparr>
       chunks ending"

section \<open>PocketTTSService\<close>

text \<open>
  The HTTP exchange is the environment's answer to the POST: either
  \<^verbatim>\<open>session.post\<close> raises, or there is a response with a status, the outcome of
  \<^verbatim>\<open>await response.text()\<close>, the chunks \<^verbatim>\<open>iter_chunked\<close> delivers and the exception that
  ends the stream early, if one does. Of the service's fields \<^verbatim>\<open>run_tts\<close> reads the
  chunk size (a field of the base class) and reads and writes the session; the base URL
  only forms the address of the request.
\<close>

datatype client_session = ClientSession (closed: bool)

record response =
  status :: int
  body_text :: "exn + string"
  content :: "bytes list"
  content_error :: "exn option"

record PocketTTSService =
  chunk_size :: nat
  session :: "client_session option"

text \<open>
  The \<^verbatim>\<open>try\<close> block of \<^verbatim>\<open>run_tts\<close>: the frames it yields and the exception raised in
  it. A status other than 200 reads the body, logs it, yields the error frame and
  returns.
\<close>

definition run_tts_try :: "PocketTTSService \<Rightarrow> string \<Rightarrow> exn + response \<Rightarrow> frame list \<times> exn option" where
  "run_tts_try s text post =
     (case post of
        Inl e \<Rightarrow> ([], Some e)
      | Inr r \<Rightarrow>
          if status r \<noteq> 200 then
            (case body_text r of
               Inl e \<Rightarrow> ([], Some e)
             | Inr error_text \<Rightarrow> ([ErrorFrame (''Pocket TTS error: '' @ str_int (status r))], None))
          else
            (case stream_audio_frames_from_iterator (chunk_size s) (content r) (content_error r) True of
               (fs, x) \<Rightarrow> (TTSStartedFrame # fs, x)))"

text \<open>
  \<^verbatim>\<open>run_tts\<close>: a missing or closed session is replaced first; the handler turns the
  exception of the \<^verbatim>\<open>try\<close> block into an error frame; the \<^verbatim>\<open>finally\<close> clause yields
  the stop frame on every path. The metrics calls of the base class and the logger yield
  no frame and are taken not to raise. The text to speak goes into the request only;
  what comes back is \<open>post\<close>.
\<close>

definition run_tts :: "PocketTTSService \<Rightarrow> string \<Rightarrow> exn + response \<Rightarrow> PocketTTSService run" where
  "run_tts s text post =
     (let s1 = (case session s of
                  None \<Rightarrow> s\<lparr>session := Some (ClientSession False)\<rparr>
                | Some c \<Rightarrow> if closed c then s\<lparr>session := Some (ClientSession False)\<rparr> else s)
      in case run_tts_try s1 text post of
           (fs, x) \<Rightarrow>
             \<lparr>yielded =
                fs @ (case x of
                        None \<Rightarrow> []
                      | Some e \<Rightarrow> [ErrorFrame (''Pocket TTS exception: '' @ str_exn e)])
                   @ [TTSStoppedFrame],
              raised = None,
              after = s1\<rparr>)"

section \<open>VoskSTTService\<close>

text \<open>
  A websocket connection object is known by its identity. What the service does to the
  network is recorded in \<open>wire\<close>, in order: opening a connection to a URI, sending a
  text or binary message on a connection, closing a connection. A text message is the
  \<^verbatim>\<open>json.dumps\<close> of the value shown.
\<close>

type_synonym conn = nat

datatype payload = Text json | Binary bytes

datatype io = Connect string | Send conn payload | Close conn

record VoskSTTService =
  uri :: string
  sample_rate :: int
  language :: string
  user_id :: string
  websocket :: "conn option"
  wire :: "io list"

text \<open>
  \<^verbatim>\<open>_connect_websocket\<close>: \<open>connected\<close> is the outcome of \<^verbatim>\<open>websockets.connect\<close>,
  \<open>sent\<close> the outcome of sending the configuration message. The handler logs and
  raises again; the result is the exception that leaves the method (\<open>None\<close> when it
  returns) and the service afterwards.
\<close>

definition connect_websocket ::
  "VoskSTTService \<Rightarrow> exn + conn \<Rightarrow> exn + unit \<Rightarrow> exn option \<times> VoskSTTService" where
  "connect_websocket s connected sent =
     (case connected of
        Inl e \<Rightarrow> (Some e, s\<lparr>wire := wire s @ [Connect (uri s)]\<rparr>)
      | Inr c \<Rightarrow>
          (let s1 = s\<lparr>websocket := Some c,
                      wire := wire s @
                        [Connect (uri s),
                         Send c (Text (JObj [(''config'', JObj [(''sample_rate'', JNum (sample_rate s))])]))]\<rparr>
           in case sent of
                Inl e \<Rightarrow> (Some e, s1)
              | Inr u \<Rightarrow> (None, s1)))"

text \<open>
  \<^verbatim>\<open>_disconnect_websocket\<close>. The library's \<^verbatim>\<open>close()\<close> does not raise: it swallows
  the connection-closed error and does nothing on a closed connection.
\<close>

definition disconnect_websocket :: "VoskSTTService \<Rightarrow> exn option \<times> VoskSTTService" where
  "disconnect_websocket s =
     (case websocket s of
        None \<Rightarrow> (None, s)
      | Some c \<Rightarrow> (None, s\<lparr>websocket := None, wire := wire s @ [Close c]\<rparr>))"

text \<open>
  Modelled from the spec: \<^verbatim>\<open>_connect\<close> is inherited from the websocket base class,
  which is not among the sources. The specification's \<^verbatim>\<open>connect()\<close> establishes the
  connection and sends the one configuration handshake message: that is
  \<^verbatim>\<open>_connect_websocket\<close>.
\<close>

definition connect ::
  "VoskSTTService \<Rightarrow> exn + conn \<Rightarrow> exn + unit \<Rightarrow> exn option \<times> VoskSTTService" where
  "connect s connected sent = connect_websocket s connected sent"

text \<open>
  \<^verbatim>\<open>run_stt\<close>: connects first when there is no connection handle (outside the
  \<^verbatim>\<open>try\<close>, so a failure there leaves the generator), then sends the audio; an
  exception of the send becomes an error frame. \<open>connected\<close> and \<open>handshake\<close> are
  the outcomes the connect would meet, \<open>sent\<close> the outcome of sending the audio.
\<close>

definition run_stt ::
  "VoskSTTService \<Rightarrow> bytes \<Rightarrow> exn + conn \<Rightarrow> exn + unit \<Rightarrow> exn + unit \<Rightarrow> VoskSTTService run" where
  "run_stt s audio connected handshake sent =
     (case (case websocket s of
              None \<Rightarrow> connect s connected handshake
            | Some c \<Rightarrow> (None, s)) of
        (Some e, s1) \<Rightarrow> \<lparr>yielded = [], raised = Some e, after = s1\<rparr>
      | (None, s1) \<Rightarrow>
          (case websocket s1 of
             None \<Rightarrow>
               \<lparr>yielded = [ErrorFrame (''Vosk STT error: '' @
                    str_exn (AttributeError ''NoneType object has no attribute send''))],
                raised = None, after = s1\<rparr>
           | Some c \<Rightarrow>
               \<lparr>yielded = (case sent of
                             Inl e \<Rightarrow> [ErrorFrame (''Vosk STT error: '' @ str_exn e)]
                           | Inr u \<Rightarrow> []),
                raised = None,
                after = s1\<lparr>wire := wire s1 @ [Send c (Binary audio)]\<rparr>\<rparr>))"

subsection \<open>The receive loop\<close>

text \<open>
  A message read from the socket, with what \<^verbatim>\<open>json.loads\<close> makes of it: a decode
  error, or the decoded value.
\<close>

datatype message = Malformed string | Wellformed json

fun json_loads :: "message \<Rightarrow> exn + json" where
  "json_loads (Malformed m) = Inl (JSONDecodeError m)"
| "json_loads (Wellformed d) = Inr d"

text \<open>
  Python's \<^verbatim>\<open>key in data\<close>, \<^verbatim>\<open>data[key]\<close> and truth value, on whatever type the
  decoded value has: membership is by key in a dict, by element in a list, by substring
  in a string, and a type error otherwise; only a dict can be indexed by a string.
\<close>

fun py_in :: "string \<Rightarrow> json \<Rightarrow> exn + bool" where
  "py_in k (JObj kvs) = Inr (k \<in> set (map fst kvs))"
| "py_in k (JArr xs) = Inr (JStr k \<in> set xs)"
| "py_in k (JStr s) = Inr (contains k s)"
| "py_in k d = Inl (TypeError ''argument is not iterable'')"

fun getitem :: "json \<Rightarrow> string \<Rightarrow> exn + json" where
  "getitem (JObj kvs) k = (case map_of kvs k of None \<Rightarrow> Inl (KeyError k) | Some v \<Rightarrow> Inr v)"
| "getitem d k = Inl (TypeError ''indices must be integers'')"

fun truthy :: "json \<Rightarrow> bool" where
  "truthy JNull = False"
| "truthy (JBool b) = b"
| "truthy (JNum n) = (n \<noteq> 0)"
| "truthy (JStr s) = (s \<noteq> [])"
| "truthy (JArr xs) = (xs \<noteq> [])"
| "truthy (JObj kvs) = (kvs \<noteq> [])"

text \<open>
  The body of the loop for one message: the frames it pushes, or the exception raised
  in it. The \<^verbatim>\<open>partial\<close> branch is the \<^verbatim>\<open>elif\<close> of the \<^verbatim>\<open>text\<close> test.
\<close>

definition on_message :: "VoskSTTService \<Rightarrow> message \<Rightarrow> exn + frame list" where
  "on_message s m =
     (case json_loads m of
        Inl e \<Rightarrow> Inl e
      | Inr data \<Rightarrow>
          (case py_in ''text'' data of
             Inl e \<Rightarrow> Inl e
           | Inr has_text \<Rightarrow>
               if has_text then
                 (case getitem data ''text'' of
                    Inl e \<Rightarrow> Inl e
                  | Inr text \<Rightarrow>
                      Inr (if truthy text
                           then [TranscriptionFrame text (user_id s) (language s)] else []))
               else
                 (case py_in ''partial'' data of
                    Inl e \<Rightarrow> Inl e
                  | Inr has_partial \<Rightarrow>
                      if has_partial then
                        (case getitem data ''partial'' of
                           Inl e \<Rightarrow> Inl e
                         | Inr partial \<Rightarrow>
                             Inr (if truthy partial
                                  then [InterimTranscriptionFrame partial (user_id s) (language s)]
                                  else []))
                      else Inr [])))"

text \<open>
  \<^verbatim>\<open>_receive_messages\<close>: the \<^verbatim>\<open>async for\<close> over the socket. The socket delivers the
  messages and then either closes normally (the iteration ends) or raises \<open>closing\<close>.
  Nothing in the loop catches an exception, so the first one raised in the body ends
  the loop and leaves the method. The result is the frames pushed, in order, and the
  exception that left the method. With no connection handle the \<^verbatim>\<open>async for\<close> itself
  raises a type error.
\<close>

fun receive_loop :: "VoskSTTService \<Rightarrow> message list \<Rightarrow> exn option \<Rightarrow> frame list \<times> exn option" where
  "receive_loop s [] closing = ([], closing)"
| "receive_loop s (m # ms) closing =
     (case on_message s m of
        Inl e \<Rightarrow> ([], Some e)
      | Inr fs \<Rightarrow> (case receive_loop s ms closing of (gs, r) \<Rightarrow> (fs @ gs, r)))"

definition receive_messages ::
  "VoskSTTService \<Rightarrow> message list \<Rightarrow> exn option \<Rightarrow> frame list \<times> exn option" where
  "receive_messages s ms closing =
     (case websocket s of
        None \<Rightarrow> ([], Some (TypeError ''async for requires an object with __aiter__ method''))
      | Some c \<Rightarrow> receive_loop s ms closing)"

text \<open>
  Two readings used to state properties: the frames one message makes the loop push
  (none when its body raises), and the value a decoded message holds under a key, when
  the message is an object that has the key.
\<close>

definition pushed :: "VoskSTTService \<Rightarrow> message \<Rightarrow> frame list" where
  "pushed s m = (case on_message s m of Inl e \<Rightarrow> [] | Inr fs \<Rightarrow> fs)"

fun field :: "string \<Rightarrow> json \<Rightarrow> json option" where
  "field k (JObj kvs) = map_of kvs k"
| "field k d = None"

section \<open>Properties of PocketTTSService\<close>

lemma run_tts_try_chunk_size:
  "chunk_size s = chunk_size s' \<Longrightarrow> run_tts_try s text post = run_tts_try s' text post"
  by (simp add: run_tts_try_def split: sum.split)

subsection \<open>The streaming helper\<close>

lemma split_frames_concat:
  "split_frames n buf = (fs, rest) \<Longrightarrow> concat fs @ rest = buf"
proof (induction n buf arbitrary: fs rest rule: split_frames.induct)
  case (1 n buf)
  show ?case
  proof (cases "n = 0 \<or> length buf < n")
    case True
    with "1.prems" show ?thesis by (simp add: split_frames.simps [of n buf])
  next
    case False
    obtain gs r where rec: "split_frames n (drop n buf) = (gs, r)"
      by (cases "split_frames n (drop n buf)")
    from False rec "1.prems" have "fs = take n buf # gs" and "rest = r"
      by (simp_all add: split_frames.simps [of n buf])
    moreover from "1.IH" [OF False rec] have "concat gs @ r = drop n buf" .
    ultimately show ?thesis by simp
  qed
qed

lemma audio_bytes_append: "audio_bytes (fs @ gs) = audio_bytes fs @ audio_bytes gs"
  by (induction fs rule: audio_bytes.induct) simp_all

lemma audio_bytes_map: "audio_bytes (map AudioData bs) = concat bs"
  by (induction bs) simp_all

lemma audio_bytes_flush: "audio_bytes (flush st) = buffer st"
  by (simp add: flush_def)

lemma feed_audio:
  assumes "feed n st c = (fs, st')"
  shows "audio_bytes fs @ buffer st' = buffer st @ drop (min (header_left st) (length c)) c"
    and "header_left st' = header_left st - min (header_left st) (length c)"
    and "list_all is_audio fs"
proof -
  obtain bs rest where sp:
    "split_frames n (buffer st @ drop (min (header_left st) (length c)) c) = (bs, rest)"
    by (cases "split_frames n (buffer st @ drop (min (header_left st) (length c)) c)")
  with assms have fs: "fs = map AudioData bs"
    and st': "st' = \<lparr>header_left = header_left st - min (header_left st) (length c), buffer = rest\<rparr>"
    by (simp_all add: feed_def Let_def)
  from split_frames_concat [OF sp] fs st'
  show "audio_bytes fs @ buffer st' = buffer st @ drop (min (header_left st) (length c)) c"
    by (simp add: audio_bytes_map)
  from st' show "header_left st' = header_left st - min (header_left st) (length c)"
    by simp
  from fs show "list_all is_audio fs"
    by (simp add: list_all_iff)
qed

lemma stream_loop_audio:
  "audio_bytes (fst (stream_loop n st chunks None)) =
     buffer st @ drop (header_left st) (concat chunks)"
proof (induction chunks arbitrary: st)
  case Nil
  show ?case by (simp add: audio_bytes_flush)
next
  case (Cons c cs)
  obtain fs st' where fd: "feed n st c = (fs, st')"
    by (cases "feed n st c")
  obtain gs r where rec: "stream_loop n st' cs None = (gs, r)"
    by (cases "stream_loop n st' cs None")
  from Cons.IH [of st'] rec
  have ih: "audio_bytes gs = buffer st' @ drop (header_left st') (concat cs)"
    by simp
  have "audio_bytes (fs @ gs) =
          (audio_bytes fs @ buffer st') @ drop (header_left st') (concat cs)"
    by (simp add: audio_bytes_append ih)
  also have "\<dots> = buffer st @ drop (min (header_left st) (length c)) c
                    @ drop (header_left st - min (header_left st) (length c)) (concat cs)"
    by (simp add: feed_audio(1,2) [OF fd])
  also have "drop (min (header_left st) (length c)) c
               @ drop (header_left st - min (header_left st) (length c)) (concat cs)
             = drop (header_left st) (c @ concat cs)"
    by (cases "header_left st \<le> length c") (simp_all add: min_def)
  finally show ?case
    using fd rec by simp
qed

lemma stream_loop_only_audio: "list_all is_audio (fst (stream_loop n st chunks ending))"
proof (induction chunks arbitrary: st)
  case Nil
  show ?case by (cases ending) (simp_all add: flush_def)
next
  case (Cons c cs)
  obtain fs st' where fd: "feed n st c = (fs, st')"
    by (cases "feed n st c")
  obtain gs r where rec: "stream_loop n st' cs ending = (gs, r)"
    by (cases "stream_loop n st' cs ending")
  from Cons.IH [of st'] rec have "list_all is_audio gs" by simp
  with feed_audio(3) [OF fd] fd rec show ?case by simp
qed

lemma only_audio_no_stop: "list_all is_audio fs \<Longrightarrow> count_list fs TTSStoppedFrame = 0"
  by (induction fs) auto

lemma only_audio_no_error: "list_all is_audio fs \<Longrightarrow> filter is_error fs = []"
  by (induction fs rule: audio_bytes.induct) auto

lemma only_audio_no_start: "list_all is_audio fs \<Longrightarrow> TTSStartedFrame \<notin> set fs"
  by (induction fs) auto

subsection \<open>Occurrence in a string\<close>

lemma contains_self: "contains sub sub"
  by (cases sub) simp_all

lemma contains_suffix: "contains sub (pre @ sub)"
  by (induction pre) (simp_all add: contains_self)

subsection \<open>The paths of one call\<close>

lemma snd_stream_loop: "snd (stream_loop n st chunks ending) = ending"
proof (induction chunks arbitrary: st)
  case Nil
  show ?case by (cases ending) simp_all
next
  case (Cons c cs)
  show ?case
  proof -
    obtain fs st' where fd: "feed n st c = (fs, st')" by (cases "feed n st c")
    obtain gs r where rec: "stream_loop n st' cs ending = (gs, r)"
      by (cases "stream_loop n st' cs ending")
    from Cons.IH [of st'] rec have "r = ending" by simp
    with fd rec show ?thesis by simp
  qed
qed

lemma run_tts_try_post_raises: "run_tts_try s text (Inl e) = ([], Some e)"
  by (simp add: run_tts_try_def)

lemma run_tts_try_text_raises:
  "status r \<noteq> 200 \<Longrightarrow> body_text r = Inl e \<Longrightarrow> run_tts_try s text (Inr r) = ([], Some e)"
  by (simp add: run_tts_try_def)

lemma run_tts_try_not_200:
  "status r \<noteq> 200 \<Longrightarrow> body_text r = Inr error_text \<Longrightarrow>
   run_tts_try s text (Inr r) = ([ErrorFrame (''Pocket TTS error: '' @ str_int (status r))], None)"
  by (simp add: run_tts_try_def)

lemma run_tts_try_streamed:
  assumes "status r = 200"
  shows "run_tts_try s text (Inr r) =
           (TTSStartedFrame #
              fst (stream_loop (chunk_size s) \<lparr>header_left = wav_header_size, buffer = []\<rparr>
                     (content r) (content_error r)),
            content_error r)"
proof -
  obtain fs x where run:
    "stream_loop (chunk_size s) \<lparr>header_left = wav_header_size, buffer = []\<rparr>
       (content r) (content_error r) = (fs, x)"
    by (cases "stream_loop (chunk_size s) \<lparr>header_left = wav_header_size, buffer = []\<rparr>
                 (content r) (content_error r)")
  from snd_stream_loop [of "chunk_size s" "\<lparr>header_left = wav_header_size, buffer = []\<rparr>"
      "content r" "content_error r"] run
  have "x = content_error r" by simp
  with assms run show ?thesis
    by (simp add: run_tts_try_def stream_audio_frames_from_iterator_def)
qed

lemma run_tts_yielded:
  "yielded (run_tts s text post) =
     fst (run_tts_try s text post)
       @ (case snd (run_tts_try s text post) of
            None \<Rightarrow> []
          | Some e \<Rightarrow> [ErrorFrame (''Pocket TTS exception: '' @ str_exn e)])
       @ [TTSStoppedFrame]"
proof -
  define s1 where "s1 = (case session s of
                  None \<Rightarrow> s\<lparr>session := Some (ClientSession False)\<rparr>
                | Some c \<Rightarrow> if closed c then s\<lparr>session := Some (ClientSession False)\<rparr> else s)"
  have "chunk_size s1 = chunk_size s"
    by (simp add: s1_def split: option.split)
  then have same: "run_tts_try s1 text post = run_tts_try s text post"
    by (rule run_tts_try_chunk_size)
  obtain fs x where t: "run_tts_try s text post = (fs, x)"
    by (cases "run_tts_try s text post")
  have "run_tts s text post = (case run_tts_try s1 text post of
           (fs, x) \<Rightarrow>
             \<lparr>yielded =
                fs @ (case x of
                        None \<Rightarrow> []
                      | Some e \<Rightarrow> [ErrorFrame (''Pocket TTS exception: '' @ str_exn e)])
                   @ [TTSStoppedFrame],
              raised = None,
              after = s1\<rparr>)"
    unfolding run_tts_def s1_def Let_def ..
  with same t show ?thesis by simp
qed

lemma run_tts_raised: "raised (run_tts s text post) = None"
  by (simp add: run_tts_def Let_def split: prod.split)

lemma run_tts_after_session: "session (after (run_tts s text post)) = Some (ClientSession False)"
proof (cases "session s")
  case None
  then show ?thesis by (simp add: run_tts_def Let_def split: prod.split)
next
  case (Some c)
  then show ?thesis
    by (cases c) (simp add: run_tts_def Let_def split: prod.split)
qed

lemma run_tts_after_chunk_size: "chunk_size (after (run_tts s text post)) = chunk_size s"
  by (simp add: run_tts_def Let_def split: prod.split option.split)

subsection \<open>The frame sequence\<close>

lemma run_tts_try_no_stop: "count_list (fst (run_tts_try s text post)) TTSStoppedFrame = 0"
proof (cases post)
  case (Inl e)
  then show ?thesis by (simp add: run_tts_try_post_raises)
next
  case (Inr r)
  show ?thesis
  proof (cases "status r = 200")
    case True
    with Inr show ?thesis
      by (simp add: run_tts_try_streamed only_audio_no_stop [OF stream_loop_only_audio])
  next
    case False
    with Inr show ?thesis
      by (cases "body_text r") (simp_all add: run_tts_try_text_raises run_tts_try_not_200)
  qed
qed

text \<open>
  C3. Every call of \<open>run_tts\<close>, whatever the HTTP exchange does (the request raises, the
  status is not 200, the body cannot be read, the stream is delivered whole or breaks
  off with an exception), yields exactly one \<open>TTSStoppedFrame\<close>, and it is the last
  frame of the sequence.
\<close>

theorem run_tts_stop_once_and_last:
  "count_list (yielded (run_tts s text post)) TTSStoppedFrame = 1
   \<and> last (yielded (run_tts s text post)) = TTSStoppedFrame"
  by (simp add: run_tts_yielded run_tts_try_no_stop split: option.split)

theorem run_tts_stop_once_and_last_witness:
  "count_list
     (yielded (run_tts \<lparr>chunk_size = 2, session = None\<rparr> ''hello''
        (Inr \<lparr>status = 200, body_text = Inr [], content = [replicate 44 0 @ [1, 2, 3]],
              content_error = Some (ClientError ''connection reset'')\<rparr>)))
     TTSStoppedFrame = 1
   \<and> last
     (yielded (run_tts \<lparr>chunk_size = 2, session = None\<rparr> ''hello''
        (Inr \<lparr>status = 200, body_text = Inr [], content = [replicate 44 0 @ [1, 2, 3]],
              content_error = Some (ClientError ''connection reset'')\<rparr>))) = TTSStoppedFrame"
  by (rule run_tts_stop_once_and_last)

text \<open>
  C1 as stated fails: the error frame of a non-2xx response carries the status code but
  not the response body. At status 500 with body \<open>backend unavailable\<close> the frames are
  the error frame with the text \<open>Pocket TTS error: 500\<close> and the stop frame; the body
  text occurs in neither.
\<close>

theorem run_tts_error_frame_lacks_body:
  "yielded (run_tts \<lparr>chunk_size = 1024, session = None\<rparr> ''hello''
      (Inr \<lparr>status = 500, body_text = Inr ''backend unavailable'', content = [],
            content_error = None\<rparr>))
     = [ErrorFrame ''Pocket TTS error: 500'', TTSStoppedFrame]
   \<and> \<not> contains ''backend unavailable'' ''Pocket TTS error: 500''"
  by code_simp

text \<open>
  C1, amended. For every call whose response has a status outside 200..299, the frames
  are exactly one error frame followed immediately by the stop frame: no start frame and
  no audio frame. When the body is read, the error frame's text is
  \<open>Pocket TTS error: \<close> followed by the status code in decimal; the body text is not part
  of it. When reading the body raises, the text is that of the exception.
\<close>

theorem run_tts_non_2xx:
  assumes "status r < 200 \<or> 299 < status r"
  shows "yielded (run_tts s text (Inr r)) =
           [ErrorFrame (case body_text r of
                          Inl e \<Rightarrow> ''Pocket TTS exception: '' @ str_exn e
                        | Inr error_text \<Rightarrow> ''Pocket TTS error: '' @ str_int (status r)),
            TTSStoppedFrame]
         \<and> contains (str_int (status r)) (''Pocket TTS error: '' @ str_int (status r))"
proof
  from assms have "status r \<noteq> 200" by auto
  then show "yielded (run_tts s text (Inr r)) =
           [ErrorFrame (case body_text r of
                          Inl e \<Rightarrow> ''Pocket TTS exception: '' @ str_exn e
                        | Inr error_text \<Rightarrow> ''Pocket TTS error: '' @ str_int (status r)),
            TTSStoppedFrame]"
    by (cases "body_text r")
      (simp_all add: run_tts_yielded run_tts_try_text_raises run_tts_try_not_200)
  show "contains (str_int (status r)) (''Pocket TTS error: '' @ str_int (status r))"
    by (rule contains_suffix)
qed

theorem run_tts_non_2xx_witness:
  "yielded (run_tts \<lparr>chunk_size = 1024, session = None\<rparr> ''hello''
      (Inr \<lparr>status = 500, body_text = Inr ''backend unavailable'', content = [],
            content_error = None\<rparr>))
     = [ErrorFrame ''Pocket TTS error: 500'', TTSStoppedFrame]
   \<and> contains ''500'' ''Pocket TTS error: 500''"
  using run_tts_non_2xx [of "\<lparr>status = 500, body_text = Inr ''backend unavailable'', content = [],
            content_error = None\<rparr>" "\<lparr>chunk_size = 1024, session = None\<rparr>" "''hello''"]
  by (simp add: str_int_def digits.simps)

text \<open>
  C10. Exactly status 200 is success. Every other status, 201 and 204 included, gives
  one error frame and the stop frame, with no start frame and no audio frame; status 200
  gives a sequence that begins with the start frame.
\<close>

theorem run_tts_only_200_succeeds:
  "(status r \<noteq> 200 \<longrightarrow>
      (\<exists>m. yielded (run_tts s text (Inr r)) = [ErrorFrame m, TTSStoppedFrame]))
   \<and> (status r = 200 \<longrightarrow> hd (yielded (run_tts s text (Inr r))) = TTSStartedFrame)"
proof (intro conjI impI)
  assume "status r \<noteq> 200"
  then show "\<exists>m. yielded (run_tts s text (Inr r)) = [ErrorFrame m, TTSStoppedFrame]"
    by (cases "body_text r")
      (simp_all add: run_tts_yielded run_tts_try_text_raises run_tts_try_not_200)
next
  assume "status r = 200"
  then show "hd (yielded (run_tts s text (Inr r))) = TTSStartedFrame"
    by (simp add: run_tts_yielded run_tts_try_streamed)
qed

theorem run_tts_only_200_succeeds_witness:
  "(\<exists>m. yielded (run_tts \<lparr>chunk_size = 1024, session = None\<rparr> ''hello''
            (Inr \<lparr>status = 204, body_text = Inr [], content = [], content_error = None\<rparr>))
          = [ErrorFrame m, TTSStoppedFrame])
   \<and> hd (yielded (run_tts \<lparr>chunk_size = 1024, session = None\<rparr> ''hello''
            (Inr \<lparr>status = 200, body_text = Inr [], content = [], content_error = None\<rparr>)))
       = TTSStartedFrame"
  using run_tts_only_200_succeeds [of "\<lparr>status = 204, body_text = Inr [], content = [], content_error = None\<rparr>"
      "\<lparr>chunk_size = 1024, session = None\<rparr>" "''hello''"]
    run_tts_only_200_succeeds [of "\<lparr>status = 200, body_text = Inr [], content = [], content_error = None\<rparr>"
      "\<lparr>chunk_size = 1024, session = None\<rparr>" "''hello''"]
  by simp

text \<open>
  C6. For a response with status 200 whose stream is delivered whole, however the
  transport cuts it into chunks, the audio frames concatenate to the response bytes
  without their first 44: the header is dropped once, before any audio is sent, and the
  audio is as many bytes as the response less 44.
\<close>

theorem run_tts_audio_is_body_less_header:
  assumes "status r = 200" and "content_error r = None"
  shows "audio_bytes (yielded (run_tts s text (Inr r))) = drop 44 (concat (content r))
         \<and> length (audio_bytes (yielded (run_tts s text (Inr r))))
             = length (concat (content r)) - 44"
proof -
  have "audio_bytes (yielded (run_tts s text (Inr r))) = drop 44 (concat (content r))"
    using assms
    by (simp add: run_tts_yielded run_tts_try_streamed audio_bytes_append stream_loop_audio
        wav_header_size_def)
  then show ?thesis by simp
qed

theorem run_tts_audio_is_body_less_header_witness:
  "audio_bytes (yielded (run_tts \<lparr>chunk_size = 2, session = None\<rparr> ''hello''
      (Inr \<lparr>status = 200, body_text = Inr [],
            content = [replicate 40 0, replicate 4 0 @ [1, 2, 3], [4, 5]],
            content_error = None\<rparr>)))
     = [1, 2, 3, 4, 5]"
  using run_tts_audio_is_body_less_header [of
      "\<lparr>status = 200, body_text = Inr [],
        content = [replicate 40 0, replicate 4 0 @ [1, 2, 3], [4, 5]], content_error = None\<rparr>"
      "\<lparr>chunk_size = 2, session = None\<rparr>" "''hello''"]
  by simp

text \<open>
  C7. An exception raised in the HTTP exchange (by the request, or by reading the body
  of a response that is not 200) or by the stream read of a 200 response becomes
  exactly one error frame in the sequence, whose text is that of the exception; no
  exception leaves \<open>run_tts\<close>; afterwards the service holds an open session, and the
  next call yields what it would have yielded on the service before.
\<close>

theorem run_tts_exception_becomes_error_frame:
  assumes "post = Inl e
           \<or> (\<exists>r. post = Inr r \<and> status r \<noteq> 200 \<and> body_text r = Inl e)
           \<or> (\<exists>r. post = Inr r \<and> status r = 200 \<and> content_error r = Some e)"
  shows "filter is_error (yielded (run_tts s text post))
           = [ErrorFrame (''Pocket TTS exception: '' @ str_exn e)]
         \<and> raised (run_tts s text post) = None
         \<and> session (after (run_tts s text post)) = Some (ClientSession False)
         \<and> yielded (run_tts (after (run_tts s text post)) text' post')
             = yielded (run_tts s text' post')"
proof -
  from assms have "filter is_error (fst (run_tts_try s text post)) = []
      \<and> snd (run_tts_try s text post) = Some e"
    by (auto simp: run_tts_try_post_raises run_tts_try_text_raises run_tts_try_streamed
        only_audio_no_error [OF stream_loop_only_audio])
  then have "filter is_error (yielded (run_tts s text post))
           = [ErrorFrame (''Pocket TTS exception: '' @ str_exn e)]"
    by (simp add: run_tts_yielded)
  moreover have "yielded (run_tts (after (run_tts s text post)) text' post')
             = yielded (run_tts s text' post')"
    using run_tts_try_chunk_size [OF run_tts_after_chunk_size, of s _ post text' post']
    by (simp add: run_tts_yielded)
  ultimately show ?thesis
    by (simp add: run_tts_raised run_tts_after_session)
qed

theorem run_tts_exception_becomes_error_frame_witness:
  "filter is_error
     (yielded (run_tts \<lparr>chunk_size = 2, session = None\<rparr> ''hello''
        (Inl (ClientError ''connection refused''))))
     = [ErrorFrame ''Pocket TTS exception: connection refused'']
   \<and> raised (run_tts \<lparr>chunk_size = 2, session = None\<rparr> ''hello''
        (Inl (ClientError ''connection refused''))) = None"
  using run_tts_exception_becomes_error_frame [of "Inl (ClientError ''connection refused'')"
      "ClientError ''connection refused''" "\<lparr>chunk_size = 2, session = None\<rparr>" "''hello''"]
  by simp

section \<open>Properties of VoskSTTService\<close>

subsection \<open>One message\<close>

lemma py_in_object: "py_in k (JObj kvs) = Inr (map_of kvs k \<noteq> None)"
  by (simp add: map_of_eq_None_iff)

lemma on_message_malformed: "on_message s (Malformed m) = Inl (JSONDecodeError m)"
  by (simp add: on_message_def)

lemma on_message_object:
  "on_message s (Wellformed (JObj kvs)) =
     (case map_of kvs ''text'' of
        Some t \<Rightarrow> Inr (if truthy t then [TranscriptionFrame t (user_id s) (language s)] else [])
      | None \<Rightarrow>
          (case map_of kvs ''partial'' of
             Some p \<Rightarrow>
               Inr (if truthy p then [InterimTranscriptionFrame p (user_id s) (language s)] else [])
           | None \<Rightarrow> Inr []))"
proof (cases "map_of kvs ''text''")
  case (Some t)
  then have "py_in ''text'' (JObj kvs) = Inr True"
    by (simp only: py_in_object) simp
  with Some show ?thesis
    by (simp add: on_message_def del: py_in.simps)
next
  case None
  then have no_text: "py_in ''text'' (JObj kvs) = Inr False"
    by (simp only: py_in_object) simp
  show ?thesis
  proof (cases "map_of kvs ''partial''")
    case (Some p)
    then have "py_in ''partial'' (JObj kvs) = Inr True"
      by (simp only: py_in_object) simp
    with None Some no_text show ?thesis
      by (simp add: on_message_def del: py_in.simps)
  next
    case no_partial: None
    then have "py_in ''partial'' (JObj kvs) = Inr False"
      by (simp only: py_in_object) simp
    with None no_partial no_text show ?thesis
      by (simp add: on_message_def del: py_in.simps)
  qed
qed

lemma pushed_object:
  "pushed s (Wellformed (JObj kvs)) =
     (case map_of kvs ''text'' of
        Some t \<Rightarrow> if truthy t then [TranscriptionFrame t (user_id s) (language s)] else []
      | None \<Rightarrow>
          (case map_of kvs ''partial'' of
             Some p \<Rightarrow> if truthy p then [InterimTranscriptionFrame p (user_id s) (language s)] else []
           | None \<Rightarrow> []))"
  by (simp add: pushed_def on_message_object split: option.split)

lemma getitem_not_object: "\<forall>kvs. d \<noteq> JObj kvs \<Longrightarrow> \<exists>e. getitem d k = Inl e"
  by (cases d) auto

lemma pushed_not_object:
  assumes "\<forall>kvs. d \<noteq> JObj kvs"
  shows "pushed s (Wellformed d) = []"
proof -
  obtain e where "getitem d ''text'' = Inl e"
    using getitem_not_object [OF assms] by blast
  moreover obtain e' where "getitem d ''partial'' = Inl e'"
    using getitem_not_object [OF assms] by blast
  ultimately show ?thesis
    by (simp add: pushed_def on_message_def split: sum.split)
qed

lemma on_message_no_error_frame: "on_message s m = Inr fs \<Longrightarrow> filter is_error fs = []"
  by (auto simp: on_message_def split: sum.splits if_splits)

text \<open>
  C2 as stated fails: a message with a non-empty \<open>partial\<close> field need not produce a
  Partial event. The message with the fields \<open>text\<close> (empty) and \<open>partial\<close> (\<open>he\<close>)
  has a non-empty \<open>partial\<close> field and produces no event, because the \<open>partial\<close> test
  is the \<open>elif\<close> of the \<open>text\<close> test.
\<close>

theorem partial_dropped_when_text_key_present:
  "field ''partial'' (JObj [(''text'', JStr ''''), (''partial'', JStr ''he'')]) = Some (JStr ''he'')
   \<and> truthy (JStr ''he'')
   \<and> pushed \<lparr>uri = ''ws://localhost:2700'', sample_rate = 16000, language = ''en'',
              user_id = '''', websocket = Some 1, wire = []\<rparr>
        (Wellformed (JObj [(''text'', JStr ''''), (''partial'', JStr ''he'')])) = []"
  by (simp add: pushed_object)

text \<open>
  C2, amended. For every decoded message: when the message is an object with a \<open>text\<close>
  key, it produces a Final event carrying that value if the value is non-empty (true in
  Python's sense) and nothing otherwise, whatever its \<open>partial\<close> field; when it is an
  object without a \<open>text\<close> key and with a \<open>partial\<close> key, it produces a Partial event
  carrying that value if the value is non-empty and nothing otherwise; every other
  message produces no event. So a Final event is produced exactly for a non-empty
  \<open>text\<close> field, and a Partial event exactly for a non-empty \<open>partial\<close> field in a
  message that has no \<open>text\<close> key.
\<close>

theorem receive_message_events:
  "pushed s (Wellformed d) =
     (case field ''text'' d of
        Some t \<Rightarrow> if truthy t then [TranscriptionFrame t (user_id s) (language s)] else []
      | None \<Rightarrow>
          (case field ''partial'' d of
             Some p \<Rightarrow> if truthy p then [InterimTranscriptionFrame p (user_id s) (language s)] else []
           | None \<Rightarrow> []))"
proof (cases d)
  case (JObj kvs)
  then show ?thesis by (simp add: pushed_object split: option.split)
qed (simp_all add: pushed_not_object)

theorem receive_message_events_witness:
  "pushed \<lparr>uri = ''ws://localhost:2700'', sample_rate = 16000, language = ''en'',
           user_id = ''u1'', websocket = Some 1, wire = []\<rparr>
     (Wellformed (JObj [(''partial'', JStr ''he'')]))
     = [InterimTranscriptionFrame (JStr ''he'') ''u1'' ''en'']
   \<and> pushed \<lparr>uri = ''ws://localhost:2700'', sample_rate = 16000, language = ''en'',
           user_id = ''u1'', websocket = Some 1, wire = []\<rparr>
     (Wellformed (JObj [(''text'', JStr ''hello''), (''partial'', JStr ''he'')]))
     = [TranscriptionFrame (JStr ''hello'') ''u1'' ''en'']
   \<and> pushed \<lparr>uri = ''ws://localhost:2700'', sample_rate = 16000, language = ''en'',
           user_id = ''u1'', websocket = Some 1, wire = []\<rparr>
     (Wellformed (JObj [(''partial'', JStr '''')])) = []"
  using receive_message_events [of "\<lparr>uri = ''ws://localhost:2700'', sample_rate = 16000,
        language = ''en'', user_id = ''u1'', websocket = Some 1, wire = []\<rparr>"
      "JObj [(''partial'', JStr ''he'')]"]
    receive_message_events [of "\<lparr>uri = ''ws://localhost:2700'', sample_rate = 16000,
        language = ''en'', user_id = ''u1'', websocket = Some 1, wire = []\<rparr>"
      "JObj [(''text'', JStr ''hello''), (''partial'', JStr ''he'')]"]
    receive_message_events [of "\<lparr>uri = ''ws://localhost:2700'', sample_rate = 16000,
        language = ''en'', user_id = ''u1'', websocket = Some 1, wire = []\<rparr>"
      "JObj [(''partial'', JStr '''')]"]
  by simp

subsection \<open>The loop\<close>

lemma receive_loop_append:
  "snd (receive_loop s pre None) = None \<Longrightarrow>
   receive_loop s (pre @ rest) closing =
     (fst (receive_loop s pre None) @ fst (receive_loop s rest closing),
      snd (receive_loop s rest closing))"
proof (induction pre)
  case Nil
  show ?case by simp
next
  case (Cons m ms)
  show ?case
  proof (cases "on_message s m")
    case (Inl e)
    with Cons.prems show ?thesis by simp
  next
    case (Inr fs)
    with Cons.prems have "snd (receive_loop s ms None) = None"
      by (simp split: prod.splits)
    from Cons.IH [OF this] Inr show ?thesis
      by (simp split: prod.splits)
  qed
qed

lemma receive_loop_malformed:
  "receive_loop s (Malformed m # post) closing = ([], Some (JSONDecodeError m))"
  by (simp add: on_message_malformed)

lemma receive_loop_no_error_frame: "filter is_error (fst (receive_loop s ms closing)) = []"
proof (induction ms)
  case Nil
  show ?case by simp
next
  case (Cons m ms)
  show ?case
  proof (cases "on_message s m")
    case (Inl e)
    then show ?thesis by simp
  next
    case (Inr fs)
    obtain gs r where rec: "receive_loop s ms closing = (gs, r)"
      by (cases "receive_loop s ms closing")
    with Cons.IH have "filter is_error gs = []" by simp
    with Inr rec on_message_no_error_frame [OF Inr] show ?thesis by simp
  qed
qed

text \<open>
  C4 as stated fails: a message that is not valid JSON ends the receive loop. With a
  malformed message followed by a final result on a socket that neither closes with an
  error nor has closed yet, the loop pushes nothing and the decode error leaves it; the
  final result, which the loop turns into a Final event when it reads it, is never read.
\<close>

theorem receive_loop_ends_at_malformed_message:
  "receive_messages \<lparr>uri = ''ws://localhost:2700'', sample_rate = 16000, language = ''en'',
                     user_id = ''u1'', websocket = Some 1, wire = []\<rparr>
     [Malformed ''not json'', Wellformed (JObj [(''text'', JStr ''hello'')])] None
     = ([], Some (JSONDecodeError ''not json''))
   \<and> receive_messages \<lparr>uri = ''ws://localhost:2700'', sample_rate = 16000, language = ''en'',
                     user_id = ''u1'', websocket = Some 1, wire = []\<rparr>
     [Wellformed (JObj [(''text'', JStr ''hello'')])] None
     = ([TranscriptionFrame (JStr ''hello'') ''u1'' ''en''], None)"
  by (simp add: receive_messages_def on_message_def)

text \<open>
  C4, amended. If the receive loop reads a message that is not valid JSON, the decode
  error is raised out of the loop, which ends there: the frames pushed are those of the
  messages before it, no error frame is among them, and what the socket delivers or does
  afterwards has no effect. (Whether the error is then reported as an error frame is
  decided by the task handler of the base class.)
\<close>

theorem receive_messages_malformed:
  assumes "websocket s = Some c" and "snd (receive_messages s pre None) = None"
  shows "receive_messages s (pre @ Malformed m # post) closing
           = (fst (receive_messages s pre None), Some (JSONDecodeError m))
         \<and> filter is_error (fst (receive_messages s pre None)) = []"
  using assms receive_loop_append [of s pre "Malformed m # post" closing]
  by (simp add: receive_messages_def on_message_malformed receive_loop_no_error_frame)

theorem receive_messages_malformed_witness:
  "receive_messages \<lparr>uri = ''ws://localhost:2700'', sample_rate = 16000, language = ''en'',
                     user_id = ''u1'', websocket = Some 1, wire = []\<rparr>
     ([Wellformed (JObj [(''partial'', JStr ''he'')])]
        @ Malformed ''not json'' # [Wellformed (JObj [(''text'', JStr ''hello'')])]) None
     = ([InterimTranscriptionFrame (JStr ''he'') ''u1'' ''en''], Some (JSONDecodeError ''not json''))"
proof -
  let ?s = "\<lparr>uri = ''ws://localhost:2700'', sample_rate = 16000, language = ''en'',
             user_id = ''u1'', websocket = Some (1::nat), wire = []\<rparr>"
  let ?pre = "[Wellformed (JObj [(''partial'', JStr ''he'')])]"
  have pre: "receive_messages ?s ?pre None
               = ([InterimTranscriptionFrame (JStr ''he'') ''u1'' ''en''], None)"
    by (simp add: receive_messages_def on_message_def)
  have "websocket ?s = Some 1" by simp
  moreover from pre have "snd (receive_messages ?s ?pre None) = None" by simp
  ultimately show ?thesis
    using receive_messages_malformed [of ?s 1 ?pre "''not json''"
        "[Wellformed (JObj [(''text'', JStr ''hello'')])]" None] pre
    by simp
qed

subsection \<open>Connecting and disconnecting\<close>

lemma connect_websocket_open_fails:
  "connect_websocket s (Inl e) sent = (Some e, s\<lparr>wire := wire s @ [Connect (uri s)]\<rparr>)"
  by (simp add: connect_websocket_def)

text \<open>
  C5: the code at the failing input. The socket opens (connection 7) and sending the
  configuration message raises: \<open>connect_websocket\<close> raises to its caller, and the
  service keeps connection 7 as its handle. A later \<open>run_stt\<close> finds the handle,
  opens no new connection, and sends the audio on connection 7.
\<close>

theorem connect_handshake_failure_keeps_handle:
  "connect_websocket
     \<lparr>uri = ''ws://localhost:2700'', sample_rate = 16000, language = ''en'',
      user_id = ''u1'', websocket = None, wire = []\<rparr>
     (Inr 7) (Inl (ConnectionClosedError ''no close frame received''))
   = (Some (ConnectionClosedError ''no close frame received''),
      \<lparr>uri = ''ws://localhost:2700'', sample_rate = 16000, language = ''en'',
       user_id = ''u1'', websocket = Some 7,
       wire = [Connect ''ws://localhost:2700'',
               Send 7 (Text (JObj [(''config'', JObj [(''sample_rate'', JNum 16000)])]))]\<rparr>)
   \<and> wire (after (run_stt
        \<lparr>uri = ''ws://localhost:2700'', sample_rate = 16000, language = ''en'',
         user_id = ''u1'', websocket = Some 7,
         wire = [Connect ''ws://localhost:2700'',
                 Send 7 (Text (JObj [(''config'', JObj [(''sample_rate'', JNum 16000)])]))]\<rparr>
        [1, 2] (Inr 8) (Inr ()) (Inr ())))
     = [Connect ''ws://localhost:2700'',
        Send 7 (Text (JObj [(''config'', JObj [(''sample_rate'', JNum 16000)])])),
        Send 7 (Binary [1, 2])]"
  by (simp add: connect_websocket_def run_stt_def)

text \<open>
  C9. \<open>disconnect_websocket\<close> raises nothing and leaves no connection handle; called
  again right after, it raises nothing, leaves no handle, and does nothing at all (the
  service and the wire are as the first call left them). On a service that never
  connected it does nothing either.
\<close>

theorem disconnect_websocket_idempotent:
  "fst (disconnect_websocket s) = None
   \<and> websocket (snd (disconnect_websocket s)) = None
   \<and> disconnect_websocket (snd (disconnect_websocket s)) = (None, snd (disconnect_websocket s))
   \<and> (websocket s = None \<longrightarrow> disconnect_websocket s = (None, s))"
  by (cases "websocket s") (simp_all add: disconnect_websocket_def)

theorem disconnect_websocket_idempotent_witness:
  "disconnect_websocket
     \<lparr>uri = ''ws://localhost:2700'', sample_rate = 16000, language = ''en'',
      user_id = ''u1'', websocket = Some 7, wire = []\<rparr>
     = (None, \<lparr>uri = ''ws://localhost:2700'', sample_rate = 16000, language = ''en'',
               user_id = ''u1'', websocket = None, wire = [Close 7]\<rparr>)
   \<and> disconnect_websocket
       (snd (disconnect_websocket
         \<lparr>uri = ''ws://localhost:2700'', sample_rate = 16000, language = ''en'',
          user_id = ''u1'', websocket = Some 7, wire = []\<rparr>))
     = (None, \<lparr>uri = ''ws://localhost:2700'', sample_rate = 16000, language = ''en'',
               user_id = ''u1'', websocket = None, wire = [Close 7]\<rparr>)"
proof -
  let ?s = "\<lparr>uri = ''ws://localhost:2700'', sample_rate = 16000, language = ''en'',
             user_id = ''u1'', websocket = Some (7::nat), wire = []\<rparr>"
  have first: "disconnect_websocket ?s
     = (None, \<lparr>uri = ''ws://localhost:2700'', sample_rate = 16000, language = ''en'',
               user_id = ''u1'', websocket = None, wire = [Close 7]\<rparr>)"
    by (simp add: disconnect_websocket_def)
  with disconnect_websocket_idempotent [of ?s] show ?thesis
    by simp
qed

end
